theory Spec2Isabelle
  imports Main "HOL-Library.AList"
begin

section \<open>Time\<close>

text \<open>
  \<open>timezone.now()\<close> returns a datetime with microsecond resolution and a \<open>timedelta\<close>
  has the same resolution: both are integers counting microseconds (since the epoch, for
  an instant). A JWT time claim is the whole number of seconds of an instant
  (\<open>timegm(dt.utctimetuple())\<close> drops the microseconds).
\<close>

type_synonym time = int
type_synonym timedelta = int

definition seconds :: "int \<Rightarrow> timedelta" where
  "seconds n = n * 1000000"

definition minutes :: "int \<Rightarrow> timedelta" where
  "minutes n = seconds (n * 60)"

definition days :: "int \<Rightarrow> timedelta" where
  "days n = seconds (n * 86400)"

definition timestamp :: "time \<Rightarrow> int" where
  "timestamp t = t div 1000000"

text \<open>
  A request reads the clock several times. \<open>clk k\<close> is the instant returned by the
  \<open>k\<close>-th read of the request, counted from 0 in the order in which the code reads.
\<close>

type_synonym clock = "nat \<Rightarrow> time"

section \<open>Python exceptions and int()\<close>

text \<open>The exceptions that can leave the modelled code.\<close>

datatype exn =
    User_DoesNotExist
  | RefreshTokenModel_DoesNotExist
  | MultipleObjectsReturned
  | IntegrityError
  | KeyError string
  | ValueError
  | TypeError
  | IndexError
  | AuthenticationFailed string

text \<open>
  \<open>int(s)\<close> for a string, as PyJWT applies it to a time claim and Django to the value of
  a primary-key lookup: whitespace around the number is dropped, a sign may come first,
  and the digits may be grouped by single underscores between digits; anything else is a
  \<open>ValueError\<close> (\<open>None\<close>), as is a number of more than 4300 digits.
\<close>

definition is_space :: "char \<Rightarrow> bool" where
  "is_space c = (c \<in> set [CHR 0x09, CHR 0x0A, CHR 0x0B, CHR 0x0C, CHR 0x0D, CHR '' '',
                            CHR 0x85, CHR 0xA0])"

definition digit_value :: "char \<Rightarrow> int option" where
  "digit_value c = map_of (zip ''0123456789'' [0, 1, 2, 3, 4, 5, 6, 7, 8, 9]) c"

definition is_digit :: "char \<Rightarrow> bool" where
  "is_digit c = (digit_value c \<noteq> None)"

fun digits_ok :: "string \<Rightarrow> bool" where
  "digits_ok [] = False"
| "digits_ok [c] = is_digit c"
| "digits_ok (c # d # cs) =
     (is_digit c \<and> (if d = CHR ''_'' then digits_ok cs else digits_ok (d # cs)))"

definition int_max_str_digits :: nat where
  "int_max_str_digits = 4300"

definition int_str :: "string \<Rightarrow> int option" where
  "int_str s =
     (let s1 = dropWhile is_space s;
          negative = (take 1 s1 = ''-'');
          s2 = (if take 1 s1 = ''-'' \<or> take 1 s1 = ''+'' then drop 1 s1 else s1);
          body = takeWhile (\<lambda>c. is_digit c \<or> c = CHR ''_'') s2;
          rest = dropWhile (\<lambda>c. is_digit c \<or> c = CHR ''_'') s2;
          digits = filter is_digit body;
          n = foldl (\<lambda>acc c. 10 * acc + the (digit_value c)) 0 digits
      in if digits_ok body \<and> list_all is_space rest \<and> length digits \<le> int_max_str_digits
         then Some (if negative then - n else n)
         else None)"

section \<open>The JWT library, symbolically\<close>

text \<open>
  PyJWT is an external library. Its compact serialisation and its HMAC are modelled
  symbolically: the string that \<open>jwt.encode(payload, key, algorithm="HS256")\<close> returns is one
  atomic symbol \<open>Jws key payload\<close>, which records the payload and the key that signed it.
  A string on the wire is a list of symbols, each an ordinary character or such a token,
  so that the string operations of the code (emptiness, \<open>startswith\<close>, \<open>split\<close>) are
  modelled on the same type. A string that is not exactly one token symbol is taken not
  to parse as a JWT; other spellings of a token that the library's base64 decoding
  tolerates (padding after the signature) are not modelled.

  A payload is a Python dict of JSON values, kept as an association list in insertion
  order; the values of the model are integers and strings, and characters are code
  points below 256.
\<close>

datatype jval = JInt int | JStr string

type_synonym payload = "(string \<times> jval) list"
type_synonym key = string

datatype sym = Chr char | Jws key payload

type_synonym wire = "sym list"

definition str :: "string \<Rightarrow> wire" where
  "str s = map Chr s"

text \<open>\<open>int(v)\<close> for a value of a payload.\<close>

fun int_val :: "jval \<Rightarrow> int option" where
  "int_val (JInt n) = Some n"
| "int_val (JStr s) = int_str s"

text \<open>
  The exceptions of \<open>jwt.decode\<close>; every one of them is a subclass of
  \<open>jwt.InvalidTokenError\<close>, \<open>ExpiredSignatureError\<close> included.
\<close>

datatype jwt_error =
    ExpiredSignatureError
  | ImmatureSignatureError
  | InvalidIssuedAtError
  | InvalidAudienceError
  | InvalidSubjectError
  | InvalidJTIError
  | InvalidSignatureError
  | DecodeError

text \<open>\<open>jwt.encode\<close> raises \<open>TypeError\<close> for an \<open>iss\<close> claim that is not a string.\<close>

definition jwt_encode :: "payload \<Rightarrow> key \<Rightarrow> exn + wire" where
  "jwt_encode p k =
     (case map_of p ''iss'' of
        Some (JInt n) \<Rightarrow> Inl TypeError
      | _ \<Rightarrow> Inr [Jws k p])"

fun truthy :: "jval \<Rightarrow> bool" where
  "truthy (JInt n) = (n \<noteq> 0)"
| "truthy (JStr s) = (s \<noteq> [])"

text \<open>
  The registered claims that \<open>jwt.decode\<close> validates when it is called, as the code calls
  it, with a key and the algorithm only, in the order of the library: \<open>iat\<close> and \<open>nbf\<close>
  must not lie in the future, \<open>exp\<close> must lie in the future, an \<open>aud\<close> claim is refused
  because no audience is passed, and \<open>sub\<close> and \<open>jti\<close> must be strings. The library
  compares with its own clock read, a float of seconds; against an integer claim that is
  the comparison with the whole seconds \<open>now\<close>. A time claim is converted with \<open>int()\<close>.
\<close>

definition validate_iat :: "payload \<Rightarrow> int \<Rightarrow> jwt_error option" where
  "validate_iat p now =
     (case map_of p ''iat'' of
        None \<Rightarrow> None
      | Some v \<Rightarrow>
         (case int_val v of
            None \<Rightarrow> Some InvalidIssuedAtError
          | Some iat \<Rightarrow> if iat > now then Some ImmatureSignatureError else None))"

definition validate_nbf :: "payload \<Rightarrow> int \<Rightarrow> jwt_error option" where
  "validate_nbf p now =
     (case map_of p ''nbf'' of
        None \<Rightarrow> None
      | Some v \<Rightarrow>
         (case int_val v of
            None \<Rightarrow> Some DecodeError
          | Some nbf \<Rightarrow> if nbf > now then Some ImmatureSignatureError else None))"

text \<open>
  Modelled from the spec: the expiry check inside \<open>jwt.decode\<close>, which is PyJWT's and is
  not under \<open>src/\<close>. The spec has Verify fail with ExpiredToken when the current time is
  at or past \<open>expires_at\<close>: timestamps are integer seconds since the epoch and the
  comparison is \<open>now >= expires_at\<close>, the boundary included.
\<close>

definition validate_exp :: "payload \<Rightarrow> int \<Rightarrow> jwt_error option" where
  "validate_exp p now =
     (case map_of p ''exp'' of
        None \<Rightarrow> None
      | Some v \<Rightarrow>
         (case int_val v of
            None \<Rightarrow> Some DecodeError
          | Some exp \<Rightarrow> if exp \<le> now then Some ExpiredSignatureError else None))"

definition validate_aud :: "payload \<Rightarrow> jwt_error option" where
  "validate_aud p =
     (case map_of p ''aud'' of
        None \<Rightarrow> None
      | Some v \<Rightarrow> if truthy v then Some InvalidAudienceError else None)"

definition validate_sub :: "payload \<Rightarrow> jwt_error option" where
  "validate_sub p =
     (case map_of p ''sub'' of
        Some (JInt n) \<Rightarrow> Some InvalidSubjectError
      | _ \<Rightarrow> None)"

definition validate_jti :: "payload \<Rightarrow> jwt_error option" where
  "validate_jti p =
     (case map_of p ''jti'' of
        Some (JInt n) \<Rightarrow> Some InvalidJTIError
      | _ \<Rightarrow> None)"

definition validate_claims :: "payload \<Rightarrow> int \<Rightarrow> jwt_error option" where
  "validate_claims p now =
     (case validate_iat p now of
        Some e \<Rightarrow> Some e
      | None \<Rightarrow>
     (case validate_nbf p now of
        Some e \<Rightarrow> Some e
      | None \<Rightarrow>
     (case validate_exp p now of
        Some e \<Rightarrow> Some e
      | None \<Rightarrow>
     (case validate_aud p of
        Some e \<Rightarrow> Some e
      | None \<Rightarrow>
     (case validate_sub p of
        Some e \<Rightarrow> Some e
      | None \<Rightarrow> validate_jti p)))))"

definition jwt_decode :: "wire \<Rightarrow> key \<Rightarrow> time \<Rightarrow> jwt_error + payload" where
  "jwt_decode token k now =
     (case token of
        [Jws k' p] \<Rightarrow>
          if k' \<noteq> k then Inl InvalidSignatureError
          else (case validate_claims p (timestamp now) of
                  Some e \<Rightarrow> Inl e
                | None \<Rightarrow> Inr p)
      | _ \<Rightarrow> Inl DecodeError)"

section \<open>views.py: create_token and decode_token\<close>

text \<open>
  \<open>SECRET_KEY\<close> comes from the environment and is a parameter \<open>k\<close>, taken to be a
  key that the HMAC of the library accepts (it refuses a PEM or SSH public key).
  \<open>create_token\<close> reads the clock twice: \<open>now1\<close> for \<open>exp\<close>, then \<open>now2\<close> for \<open>iat\<close>.
  The dict display \<open>{**data, "exp": ..., "iat": ...}\<close> (\<open>token_payload\<close>) keeps the items of
  \<open>data\<close> and sets the two keys after them, replacing in place a key that \<open>data\<close>
  already has. Instants and lifetimes are unbounded integers here: in the code
  \<open>timezone.now() + expiration\<close> raises \<open>OverflowError\<close> when the sum is not an instant of
  the years 1 to 9999 (\<open>datetime_min\<close> to \<open>datetime_max\<close>), which the model does not
  raise; a statement about an arbitrary lifetime carries that range as a hypothesis.
\<close>

definition datetime_min :: time where
  "datetime_min = - 62135596800000000"

definition datetime_max :: time where
  "datetime_max = 253402300799999999"

definition ACCESS_TOKEN_EXPIRATION :: timedelta where
  "ACCESS_TOKEN_EXPIRATION = minutes 15"

definition REFRESH_TOKEN_EXPIRATION :: timedelta where
  "REFRESH_TOKEN_EXPIRATION = days 7"

definition token_payload :: "payload \<Rightarrow> timedelta \<Rightarrow> time \<Rightarrow> time \<Rightarrow> payload" where
  "token_payload data expiration now1 now2 =
     AList.update ''iat'' (JInt (timestamp now2))
       (AList.update ''exp'' (JInt (timestamp (now1 + expiration))) data)"

definition create_token ::
  "key \<Rightarrow> payload \<Rightarrow> timedelta \<Rightarrow> time \<Rightarrow> time \<Rightarrow> exn + wire" where
  "create_token k data expiration now1 now2 =
     jwt_encode (token_payload data expiration now1 now2) k"

text \<open>\<open>decode_token\<close> returns the payload, or \<open>None\<close> on either exception clause.\<close>

definition decode_token :: "key \<Rightarrow> wire \<Rightarrow> time \<Rightarrow> payload option" where
  "decode_token k token now =
     (case jwt_decode token k now of
        Inl ExpiredSignatureError \<Rightarrow> None
      | Inl e \<Rightarrow> None
      | Inr p \<Rightarrow> Some p)"

section \<open>models.py and the database\<close>

text \<open>
  The fields of \<open>CustomUser\<close> that the views read, and the declared fields of
  \<open>RefreshTokenModel\<close> (its \<open>user\<close> is a foreign key: the id of the user). A table is the
  list of its rows in insertion order. The password column holds a digest; hashing and
  checking are Django's and are parameters (\<open>make_password\<close>, \<open>check_pw\<close>).
\<close>

record user =
  u_id :: int
  u_username :: "string option"
  u_email :: string
  u_password :: string

record refresh_row =
  rt_user :: int
  rt_token :: wire
  rt_created_at :: time
  rt_expires_at :: time

text \<open>The two dynamic settings of \<open>constance.config\<close> that the views read.\<close>

record config =
  ACCESS_TOKEN_LIFETIME :: int
  REFRESH_TOKEN_LIFETIME :: int

record state =
  users :: "user list"
  refresh_tokens :: "refresh_row list"
  constance :: config
  next_user_id :: int

text \<open>
  The body of a request: \<open>request.data.get(name)\<close> is \<open>None\<close> for an absent field.
  Only string values are modelled.
\<close>

record request =
  r_email :: "string option"
  r_password :: "string option"
  r_refresh :: "wire option"

text \<open>
  What the code takes from its surroundings: the signing key, the validation of djoser's
  create serializer (\<open>is_valid\<close>, given the user table and the request), and Django's
  \<open>normalize_email\<close>, \<open>make_password\<close> and password check.
\<close>

record deps =
  SECRET_KEY :: key
  is_valid :: "user list \<Rightarrow> request \<Rightarrow> bool"
  normalize_email :: "string \<Rightarrow> string"
  make_password :: "string \<Rightarrow> string"
  check_pw :: "string \<Rightarrow> string \<Rightarrow> bool"

datatype body =
    Detail string
  | Tokens wire wire
  | Access wire
  | Success string
  | UserData int string
  | Errors

text \<open>A view answers with a status and a body, or lets an exception escape.\<close>

datatype response = Response nat body | Raised exn

text \<open>
  \<open>Model.objects.get(...)\<close>: the single row that matches, \<open>Model.DoesNotExist\<close> (passed as
  \<open>dne\<close>) when none does, \<open>MultipleObjectsReturned\<close> when several do.
\<close>

definition objects_get :: "exn \<Rightarrow> ('a \<Rightarrow> bool) \<Rightarrow> 'a list \<Rightarrow> exn + 'a" where
  "objects_get dne P rows =
     (case filter P rows of
        [] \<Rightarrow> Inl dne
      | [r] \<Rightarrow> Inr r
      | r # r' # rs \<Rightarrow> Inl MultipleObjectsReturned)"

text \<open>
  \<open>RefreshTokenModel.objects.update_or_create(user=user, defaults={token, expires_at})\<close>:
  the row of the user is updated in place, or a row is created (\<open>created_at\<close> is
  \<open>auto_now_add\<close>, read from the clock at the insert). The column \<open>token\<close> is unique: a write
  that would give two rows the same token raises \<open>IntegrityError\<close> and writes nothing.
\<close>

definition update_or_create ::
  "refresh_row list \<Rightarrow> int \<Rightarrow> wire \<Rightarrow> time \<Rightarrow> time \<Rightarrow> exn + refresh_row list" where
  "update_or_create rows uid tok expires_at now =
     (case filter (\<lambda>r. rt_user r = uid) rows of
        [] \<Rightarrow>
          if tok \<in> set (map rt_token rows) then Inl IntegrityError
          else Inr (rows @ [\<lparr>rt_user = uid, rt_token = tok,
                             rt_created_at = now, rt_expires_at = expires_at\<rparr>])
      | [r] \<Rightarrow>
          if tok \<in> set (map rt_token (filter (\<lambda>r. rt_user r \<noteq> uid) rows))
          then Inl IntegrityError
          else Inr (map (\<lambda>r. if rt_user r = uid
                              then r\<lparr>rt_token := tok, rt_expires_at := expires_at\<rparr>
                              else r) rows)
      | r # r' # rs \<Rightarrow> Inl MultipleObjectsReturned)"

text \<open>\<open>user.check_password(password)\<close>; a missing password never matches.\<close>

definition check_password :: "deps \<Rightarrow> string option \<Rightarrow> user \<Rightarrow> bool" where
  "check_password d password u =
     (case password of None \<Rightarrow> False | Some raw \<Rightarrow> check_pw d raw (u_password u))"

text \<open>\<open>CustomUserManager.create_user\<close>; the email column is unique.\<close>

definition create_user :: "deps \<Rightarrow> state \<Rightarrow> string \<Rightarrow> string \<Rightarrow> exn + state \<times> user" where
  "create_user d s email password =
     (if email = [] then Inl ValueError
      else
        let email' = normalize_email d email;
            u = \<lparr>u_id = next_user_id s, u_username = None, u_email = email',
                 u_password = make_password d password\<rparr>
        in if email' \<in> set (map u_email (users s)) then Inl IntegrityError
           else Inr (s\<lparr>users := users s @ [u], next_user_id := next_user_id s + 1\<rparr>, u))"

section \<open>views.py: the views\<close>

text \<open>
  \<open>RegisterView.post\<close>. When the serializer accepts the request, \<open>serializer.save()\<close> is
  djoser's creation of the user, which calls \<open>create_user\<close> with the validated email and
  password; the answer carries the id and the email of the new user.
\<close>

definition RegisterView_post :: "deps \<Rightarrow> state \<Rightarrow> request \<Rightarrow> state \<times> response" where
  "RegisterView_post d s req =
     (if is_valid d (users s) req then
        (case (r_email req, r_password req) of
           (Some email, Some password) \<Rightarrow>
             (case create_user d s email password of
                Inl e \<Rightarrow> (s, Raised e)
              | Inr (s', u) \<Rightarrow> (s', Response 201 (UserData (u_id u) (u_email u))))
         | _ \<Rightarrow> (s, Response 400 Errors))
      else (s, Response 400 Errors))"

text \<open>
  \<open>save_refresh_token\<close> reads the clock for \<open>expires_at\<close> (\<open>now\<close>) and reads the setting
  again; \<open>now_insert\<close> is the clock read of a created row.
\<close>

definition save_refresh_token ::
  "state \<Rightarrow> user \<Rightarrow> wire \<Rightarrow> time \<Rightarrow> time \<Rightarrow> exn + state" where
  "save_refresh_token s u refresh_token now now_insert =
     (let expires_at = now + days (REFRESH_TOKEN_LIFETIME (constance s))
      in case update_or_create (refresh_tokens s) (u_id u) refresh_token expires_at now_insert of
           Inl e \<Rightarrow> Inl e
         | Inr rows \<Rightarrow> Inr (s\<lparr>refresh_tokens := rows\<rparr>))"

definition token_data :: "user \<Rightarrow> payload" where
  "token_data u = [(''user_id'', JInt (u_id u)), (''email'', JStr (u_email u))]"

text \<open>
  \<open>CustomTokenObtainPairView.post\<close>. Clock reads: 0 and 1 in the access token, 2 and 3 in
  the refresh token, 4 in \<open>save_refresh_token\<close>, 5 when a row is inserted.
\<close>

definition CustomTokenObtainPairView_post ::
  "deps \<Rightarrow> state \<Rightarrow> request \<Rightarrow> clock \<Rightarrow> state \<times> response" where
  "CustomTokenObtainPairView_post d s req clk =
     (case objects_get User_DoesNotExist (\<lambda>u. Some (u_email u) = r_email req) (users s) of
        Inl User_DoesNotExist \<Rightarrow> (s, Response 404 (Detail ''User does not exist''))
      | Inl e \<Rightarrow> (s, Raised e)
      | Inr u \<Rightarrow>
          if \<not> check_password d (r_password req) u
          then (s, Response 401 (Detail ''Invalid credentials''))
          else
            let access_token_lifetime = seconds (ACCESS_TOKEN_LIFETIME (constance s));
                refresh_token_lifetime = days (REFRESH_TOKEN_LIFETIME (constance s))
            in case create_token (SECRET_KEY d) (token_data u)
                      access_token_lifetime (clk 0) (clk 1) of
                 Inl e \<Rightarrow> (s, Raised e)
               | Inr access_token \<Rightarrow>
                  (case create_token (SECRET_KEY d) (token_data u)
                          refresh_token_lifetime (clk 2) (clk 3) of
                     Inl e \<Rightarrow> (s, Raised e)
                   | Inr refresh_token \<Rightarrow>
                      (case save_refresh_token s u refresh_token (clk 4) (clk 5) of
                         Inl e \<Rightarrow> (s, Raised e)
                       | Inr s' \<Rightarrow>
                           (s', Response 200 (Tokens access_token refresh_token)))))"

text \<open>
  \<open>TokenRefreshView.post\<close>. Clock reads: 0 inside \<open>jwt.decode\<close>, 1 and 2 in the new access
  token. \<open>not decoded_token\<close> also holds of an empty payload. \<open>User.objects.get(id=v)\<close>
  converts \<open>v\<close> with \<open>int()\<close> and raises \<open>ValueError\<close> when that fails. The first
  \<open>except\<close> clause names \<open>RefreshTokenModel.DoesNotExist\<close>, which nothing in the \<open>try\<close>
  block raises.
\<close>

definition TokenRefreshView_post ::
  "deps \<Rightarrow> state \<Rightarrow> request \<Rightarrow> clock \<Rightarrow> state \<times> response" where
  "TokenRefreshView_post d s req clk =
     (case r_refresh req of
        None \<Rightarrow> (s, Response 400 (Detail ''Refresh token is required''))
      | Some refresh_token \<Rightarrow>
          if refresh_token = []
          then (s, Response 400 (Detail ''Refresh token is required''))
          else
           (case decode_token (SECRET_KEY d) refresh_token (clk 0) of
              None \<Rightarrow> (s, Response 401 (Detail ''Invalid or expired refresh token''))
            | Some decoded_token \<Rightarrow>
                if decoded_token = []
                then (s, Response 401 (Detail ''Invalid or expired refresh token''))
                else
                 (case map_of decoded_token ''user_id'' of
                    None \<Rightarrow> (s, Raised (KeyError ''user_id''))
                  | Some v \<Rightarrow>
                   (case int_val v of
                      None \<Rightarrow> (s, Raised ValueError)
                    | Some uid \<Rightarrow>
                     (case objects_get User_DoesNotExist (\<lambda>u. u_id u = uid) (users s) of
                        Inr u \<Rightarrow>
                         (case create_token (SECRET_KEY d) (token_data u)
                                 ACCESS_TOKEN_EXPIRATION (clk 1) (clk 2) of
                            Inl e \<Rightarrow> (s, Raised e)
                          | Inr access_token \<Rightarrow> (s, Response 200 (Access access_token)))
                      | Inl RefreshTokenModel_DoesNotExist \<Rightarrow>
                          (s, Response 401 (Detail ''Refresh token not found in database''))
                      | Inl User_DoesNotExist \<Rightarrow>
                          (s, Response 404 (Detail ''User not found''))
                      | Inl e \<Rightarrow> (s, Raised e))))))"

text \<open>
  \<open>LogoutView.post\<close>. \<open>token_obj.delete()\<close> removes the one row that \<open>get\<close> returned, which
  is then the only row with that token.
\<close>

definition LogoutView_post :: "state \<Rightarrow> request \<Rightarrow> state \<times> response" where
  "LogoutView_post s req =
     (case r_refresh req of
        None \<Rightarrow> (s, Response 400 (Detail ''Refresh token is required''))
      | Some refresh_token \<Rightarrow>
          if refresh_token = []
          then (s, Response 400 (Detail ''Refresh token is required''))
          else
           (case objects_get RefreshTokenModel_DoesNotExist
                   (\<lambda>r. rt_token r = refresh_token) (refresh_tokens s) of
              Inr token_obj \<Rightarrow>
                (s\<lparr>refresh_tokens := filter (\<lambda>r. r \<noteq> token_obj) (refresh_tokens s)\<rparr>,
                 Response 200 (Success ''User logged out.''))
            | Inl RefreshTokenModel_DoesNotExist \<Rightarrow>
                (s, Response 400 (Detail ''Invalid refresh token''))
            | Inl e \<Rightarrow> (s, Raised e)))"

section \<open>authentication.py\<close>

text \<open>\<open>s.split(sep)\<close> for a separator of one symbol.\<close>

fun split :: "'a \<Rightarrow> 'a list \<Rightarrow> 'a list list" where
  "split sep [] = [[]]"
| "split sep (x # xs) =
     (if x = sep then [] # split sep xs
      else (case split sep xs of
              [] \<Rightarrow> [[x]]
            | w # ws \<Rightarrow> (x # w) # ws))"

definition startswith :: "'a list \<Rightarrow> 'a list \<Rightarrow> bool" where
  "startswith s pre = (take (length pre) s = pre)"

text \<open>
  \<open>JWTAuthentication.authenticate\<close>, with the \<open>Authorization\<close> header of the request
  (\<open>None\<close> when absent), the key of the settings and the clock read of \<open>jwt.decode\<close>.
  \<open>Inr None\<close> is the return value \<open>None\<close>; \<open>Inr (Some (user, token))\<close> the pair. The
  lookup \<open>User.objects.get(id=v)\<close> converts \<open>v\<close> with \<open>int()\<close>, as in the Refresh view.
\<close>

definition authenticate ::
  "key \<Rightarrow> user list \<Rightarrow> wire option \<Rightarrow> time \<Rightarrow> exn + (user \<times> wire) option" where
  "authenticate k us auth_header now =
     (case auth_header of
        None \<Rightarrow> Inr None
      | Some h \<Rightarrow>
          if h = [] \<or> \<not> startswith h (str ''Bearer '') then Inr None
          else
           (case split (Chr CHR '' '') h of
              a # token # rest \<Rightarrow>
               (case jwt_decode token k now of
                  Inl ExpiredSignatureError \<Rightarrow>
                    Inl (AuthenticationFailed ''Access token has expired'')
                | Inl e \<Rightarrow> Inl (AuthenticationFailed ''Invalid token'')
                | Inr payload \<Rightarrow>
                   (case map_of payload ''user_id'' of
                      None \<Rightarrow> Inl (KeyError ''user_id'')
                    | Some v \<Rightarrow>
                     (case int_val v of
                        None \<Rightarrow> Inl ValueError
                      | Some uid \<Rightarrow>
                       (case objects_get User_DoesNotExist (\<lambda>u. u_id u = uid) us of
                          Inl User_DoesNotExist \<Rightarrow> Inl (AuthenticationFailed ''User not found'')
                        | Inl e \<Rightarrow> Inl e
                        | Inr u \<Rightarrow> Inr (Some (u, token))))))
            | _ \<Rightarrow> Inl IndexError))"

section \<open>Sequences of requests\<close>

datatype op =
    Register request
  | Login request clock
  | Refresh request clock
  | Logout request

fun step :: "deps \<Rightarrow> state \<Rightarrow> op \<Rightarrow> state \<times> response" where
  "step d s (Register req) = RegisterView_post d s req"
| "step d s (Login req clk) = CustomTokenObtainPairView_post d s req clk"
| "step d s (Refresh req clk) = TokenRefreshView_post d s req clk"
| "step d s (Logout req) = LogoutView_post s req"

fun run :: "deps \<Rightarrow> state \<Rightarrow> op list \<Rightarrow> state" where
  "run d s [] = s"
| "run d s (x # xs) = run d (fst (step d s x)) xs"

text \<open>At most one refresh-token row per user: no user id occurs twice in the table.\<close>

definition one_row_per_user :: "refresh_row list \<Rightarrow> bool" where
  "one_row_per_user rows = distinct (map rt_user rows)"

section \<open>Reading a token, and example data\<close>

text \<open>
  The value of a claim in a token, read without verification. It is used to state what
  a minted token carries.
\<close>

definition claim_of :: "wire \<Rightarrow> string \<Rightarrow> jval option" where
  "claim_of token name =
     (case token of
        [Jws k p] \<Rightarrow> map_of p name
      | _ \<Rightarrow> None)"

text \<open>
  Concrete surroundings and a concrete database for the examples, after the fixture of
  \<open>tests/test_api.py\<close>: one registered user, the default settings, an empty token table.
\<close>

definition demo_deps :: deps where
  "demo_deps =
     \<lparr>SECRET_KEY = ''secret'',
      is_valid = (\<lambda>us req. r_email req \<noteq> None \<and> r_password req \<noteq> None),
      normalize_email = (\<lambda>e. e),
      make_password = (\<lambda>raw. ''hash:'' @ raw),
      check_pw = (\<lambda>raw digest. digest = ''hash:'' @ raw)\<rparr>"

definition demo_user :: user where
  "demo_user =
     \<lparr>u_id = 1, u_username = None, u_email = ''testuser@example.com'',
      u_password = ''hash:strongpassword123''\<rparr>"

definition demo_state :: state where
  "demo_state =
     \<lparr>users = [demo_user], refresh_tokens = [],
      constance = \<lparr>ACCESS_TOKEN_LIFETIME = 900, REFRESH_TOKEN_LIFETIME = 7\<rparr>,
      next_user_id = 2\<rparr>"

definition demo_login :: request where
  "demo_login =
     \<lparr>r_email = Some ''testuser@example.com'', r_password = Some ''strongpassword123'',
      r_refresh = None\<rparr>"

definition demo_row :: refresh_row where
  "demo_row =
     \<lparr>rt_user = 1, rt_token = [Jws ''secret'' [(''user_id'', JInt 1)]],
      rt_created_at = 0, rt_expires_at = 5\<rparr>"

definition demo_refresh :: wire where
  "demo_refresh = [Jws ''secret'' (token_payload (token_data demo_user) (days 7) 0 0)]"

definition demo_clock :: clock where
  "demo_clock = (\<lambda>k. 0)"

definition later_clock :: clock where
  "later_clock = (\<lambda>k. 5000000)"

definition demo_access :: wire where
  "demo_access = [Jws ''secret'' (token_payload (token_data demo_user) (seconds 900) 0 0)]"

definition later_access :: wire where
  "later_access =
     [Jws ''secret'' (token_payload (token_data demo_user) (seconds 900) 5000000 5000000)]"

definition later_refresh :: wire where
  "later_refresh =
     [Jws ''secret'' (token_payload (token_data demo_user) (days 7) 5000000 5000000)]"

definition demo_logged_in :: state where
  "demo_logged_in =
     demo_state\<lparr>refresh_tokens :=
       [\<lparr>rt_user = 1, rt_token = demo_refresh, rt_created_at = 0, rt_expires_at = days 7\<rparr>]\<rparr>"

definition later_logged_in :: state where
  "later_logged_in =
     demo_state\<lparr>refresh_tokens :=
       [\<lparr>rt_user = 1, rt_token = later_refresh, rt_created_at = 0,
         rt_expires_at = 5000000 + days 7\<rparr>]\<rparr>"

definition short_access :: wire where
  "short_access =
     [Jws ''secret'' (token_payload (token_data demo_user) (seconds 60) 5000000 5000000)]"

definition short_config :: config where
  "short_config = \<lparr>ACCESS_TOKEN_LIFETIME = 60, REFRESH_TOKEN_LIFETIME = 7\<rparr>"

definition with_refresh :: "wire \<Rightarrow> request" where
  "with_refresh token = \<lparr>r_email = None, r_password = None, r_refresh = Some token\<rparr>"

section \<open>Auxiliary facts\<close>

lemma map_of_token_payload:
  "map_of (token_payload data ttl now1 now2) =
     (map_of data)(''exp'' \<mapsto> JInt (timestamp (now1 + ttl)), ''iat'' \<mapsto> JInt (timestamp now2))"
  by (simp add: token_payload_def update_conv')

lemma create_token_Inr:
  "create_token k data ttl now1 now2 = Inr a \<Longrightarrow> a = [Jws k (token_payload data ttl now1 now2)]"
  by (auto simp add: create_token_def jwt_encode_def split: option.splits jval.splits)

lemma create_token_token_data:
  "create_token k (token_data u) ttl now1 now2 =
     Inr [Jws k (token_payload (token_data u) ttl now1 now2)]"
  by (simp add: create_token_def jwt_encode_def map_of_token_payload token_data_def)

lemma timestamp_bounds:
  "timestamp t * 1000000 \<le> t \<and> t < timestamp t * 1000000 + 1000000"
  unfolding timestamp_def by presburger

lemma timestamp_mono: "a \<le> b \<Longrightarrow> timestamp a \<le> timestamp b"
  unfolding timestamp_def by (simp add: zdiv_mono1)

lemma objects_get_Inl:
  "objects_get dne P rows = Inl e \<Longrightarrow> e = dne \<or> e = MultipleObjectsReturned"
  by (auto simp add: objects_get_def split: list.splits)

lemma filter_unique:
  "distinct (map f xs) \<Longrightarrow> x \<in> set xs \<Longrightarrow> filter (\<lambda>r. f r = f x) xs = [x]"
proof (induction xs)
  case Nil
  then show ?case by simp
next
  case (Cons a xs)
  show ?case
  proof (cases "a = x")
    case True
    have notin: "f x \<notin> f ` set xs" using Cons.prems(1) True by simp
    have "\<forall>r\<in>set xs. f r \<noteq> f x"
    proof (intro ballI notI)
      fix r
      assume "r \<in> set xs" and eq: "f r = f x"
      then have "f r \<in> f ` set xs" by (intro imageI)
      then show False using notin eq by simp
    qed
    then have "filter (\<lambda>r. f r = f x) xs = []"
      by (simp add: filter_empty_conv)
    then show ?thesis using True by simp
  next
    case False
    then have xin: "x \<in> set xs" using Cons.prems(2) by simp
    have "f a \<notin> f ` set xs" using Cons.prems(1) by simp
    then have "f a \<noteq> f x" using xin by blast
    then show ?thesis using Cons.IH Cons.prems(1) xin by simp
  qed
qed

lemma filter_neq_remove1:
  "distinct xs \<Longrightarrow> filter (\<lambda>r. r \<noteq> x) xs = remove1 x xs"
  by (induction xs) (auto simp add: remove1_idem)

lemmas demo_defs = demo_deps_def demo_user_def demo_state_def demo_login_def with_refresh_def

lemmas demo2 = demo_clock_def later_clock_def demo_access_def later_access_def later_refresh_def
  short_access_def
  demo_logged_in_def later_logged_in_def short_config_def demo_refresh_def Let_def
  one_row_per_user_def

lemma timestamp_add_seconds: "timestamp (t + seconds n) = timestamp t + n"
  unfolding timestamp_def seconds_def by simp

lemma claim_of_create_token_exp:
  "claim_of [Jws k (token_payload data ttl now1 now2)] ''exp'' =
     Some (JInt (timestamp (now1 + ttl)))"
  by (simp add: claim_of_def map_of_token_payload)

lemma claim_of_create_token_iat:
  "claim_of [Jws k (token_payload data ttl now1 now2)] ''iat'' = Some (JInt (timestamp now2))"
  by (simp add: claim_of_def map_of_token_payload)

lemma refresh_config_free:
  "TokenRefreshView_post d (s\<lparr>constance := c\<rparr>) req clk =
     (fst (TokenRefreshView_post d s req clk)\<lparr>constance := c\<rparr>,
      snd (TokenRefreshView_post d s req clk))"
  by (simp add: TokenRefreshView_post_def create_token_token_data
      split: option.splits sum.splits exn.splits)

lemma refresh_access_is_created:
  assumes "TokenRefreshView_post d s req clk = (s', Response 200 (Access a))"
  shows "\<exists>u. a = [Jws (SECRET_KEY d)
                    (token_payload (token_data u) ACCESS_TOKEN_EXPIRATION (clk 1) (clk 2))]"
  using assms
  by (auto simp add: TokenRefreshView_post_def create_token_token_data
      split: option.splits sum.splits exn.splits if_splits)

lemma login_tokens_are_created:
  assumes "CustomTokenObtainPairView_post d s req clk = (s', Response 200 (Tokens a r))"
  shows "\<exists>u. filter (\<lambda>u. Some (u_email u) = r_email req) (users s) = [u]
           \<and> a = [Jws (SECRET_KEY d) (token_payload (token_data u)
                   (seconds (ACCESS_TOKEN_LIFETIME (constance s))) (clk 0) (clk 1))]
           \<and> r = [Jws (SECRET_KEY d) (token_payload (token_data u)
                   (days (REFRESH_TOKEN_LIFETIME (constance s))) (clk 2) (clk 3))]
           \<and> save_refresh_token s u r (clk 4) (clk 5) = Inr s'"
  using assms
  by (auto simp add: CustomTokenObtainPairView_post_def objects_get_def Let_def
      create_token_token_data split: list.splits sum.splits exn.splits if_splits)

lemma split_not_Nil: "split sep xs \<noteq> []"
  by (induction xs) (auto split: list.splits)

lemma split_bearer:
  "split (Chr CHR '' '') (str ''Bearer '' @ y) = str ''Bearer'' # split (Chr CHR '' '') y"
  by (simp add: str_def split: list.splits)

lemma startswith_bearer_split:
  assumes "startswith x (str ''Bearer '')"
  shows "\<exists>t r. split (Chr CHR '' '') x = str ''Bearer'' # t # r"
proof -
  have "take (length (str ''Bearer '')) x = str ''Bearer ''"
    using assms by (simp only: startswith_def)
  then have "str ''Bearer '' @ drop (length (str ''Bearer '')) x = x"
    using append_take_drop_id [of "length (str ''Bearer '')" x] by (simp only:)
  then obtain y where "x = str ''Bearer '' @ y" by (rule that [OF sym])
  then have "split (Chr CHR '' '') x = str ''Bearer'' # split (Chr CHR '' '') y"
    using split_bearer [of y] by simp
  then show ?thesis
    using split_not_Nil [of "Chr CHR '' ''" y]
    by (cases "split (Chr CHR '' '') y") auto
qed

lemma update_or_create_inv:
  assumes uc: "update_or_create rows uid tok e now = Inr rows'"
    and inv: "one_row_per_user rows"
  shows "one_row_per_user rows'"
proof (cases "filter (\<lambda>r. rt_user r = uid) rows")
  case Nil
  then have "uid \<notin> set (map rt_user rows)"
    by (auto simp add: filter_empty_conv)
  then show ?thesis using uc inv Nil
    by (auto simp add: update_or_create_def one_row_per_user_def split: if_splits)
next
  case (Cons r rs)
  let ?f = "\<lambda>r. if rt_user r = uid then r\<lparr>rt_token := tok, rt_expires_at := e\<rparr> else r"
  have same: "map rt_user (map ?f rows) = map rt_user rows"
    by (induction rows) auto
  show ?thesis
  proof (cases rs)
    case Nil
    then have "rows' = map ?f rows"
      using uc Cons by (auto simp add: update_or_create_def split: if_splits)
    then have "map rt_user rows' = map rt_user rows"
      by (simp only: same)
    then show ?thesis using inv by (simp only: one_row_per_user_def)
  next
    case (Cons r' rs')
    then show ?thesis using uc \<open>filter (\<lambda>r. rt_user r = uid) rows = r # rs\<close>
      by (simp add: update_or_create_def)
  qed
qed

lemma login_store:
  "refresh_tokens (fst (CustomTokenObtainPairView_post d s req clk)) = refresh_tokens s
   \<or> (\<exists>uid tok e now.
         update_or_create (refresh_tokens s) uid tok e now =
           Inr (refresh_tokens (fst (CustomTokenObtainPairView_post d s req clk))))"
  by (auto simp add: CustomTokenObtainPairView_post_def save_refresh_token_def Let_def
      create_token_token_data split: sum.splits exn.splits)

lemma step_inv:
  assumes "one_row_per_user (refresh_tokens s)"
  shows "one_row_per_user (refresh_tokens (fst (step d s x)))"
proof (cases x)
  case (Register req)
  then show ?thesis using assms
    by (auto simp add: RegisterView_post_def create_user_def Let_def
        split: option.splits sum.splits if_splits prod.splits)
next
  case (Login req clk)
  then show ?thesis
    using assms login_store [of d s req clk] update_or_create_inv by auto
next
  case (Refresh req clk)
  then show ?thesis using assms
    by (auto simp add: TokenRefreshView_post_def create_token_token_data
        split: option.splits sum.splits exn.splits)
next
  case (Logout req)
  then show ?thesis using assms
    by (auto simp add: LogoutView_post_def one_row_per_user_def distinct_map_filter
        split: option.splits sum.splits exn.splits)
qed

lemma run_inv:
  "one_row_per_user (refresh_tokens s) \<Longrightarrow> one_row_per_user (refresh_tokens (run d s ops))"
proof (induction ops arbitrary: s)
  case Nil
  then show ?case by simp
next
  case (Cons x xs)
  then show ?case using step_inv [of s d x] by simp
qed

lemma distinct_filter_le1:
  "distinct (map f xs) \<Longrightarrow> length (filter (\<lambda>r. f r = k) xs) \<le> 1"
proof (induction xs)
  case Nil
  then show ?case by simp
next
  case (Cons a xs)
  show ?case
  proof (cases "f a = k")
    case True
    then have notin: "k \<notin> f ` set xs" using Cons.prems by simp
    have "\<forall>r\<in>set xs. f r \<noteq> k"
    proof (intro ballI notI)
      fix r
      assume "r \<in> set xs" and eq: "f r = k"
      then have "f r \<in> f ` set xs" by (intro imageI)
      then show False using notin eq by simp
    qed
    then have "filter (\<lambda>r. f r = k) xs = []" by (simp add: filter_empty_conv)
    then show ?thesis using True by simp
  next
    case False
    then show ?thesis using Cons by simp
  qed
qed

lemma update_or_create_row:
  assumes uc: "update_or_create rows uid tok e now = Inr rows'"
  shows "map (\<lambda>r. (rt_token r, rt_expires_at r)) (filter (\<lambda>r. rt_user r = uid) rows') =
           [(tok, e)]"
proof (cases "filter (\<lambda>r. rt_user r = uid) rows")
  case Nil
  then show ?thesis using uc
    by (auto simp add: update_or_create_def split: if_splits)
next
  case (Cons r rs)
  let ?f = "\<lambda>r. if rt_user r = uid then r\<lparr>rt_token := tok, rt_expires_at := e\<rparr> else r"
  have comm: "filter (\<lambda>r. rt_user r = uid) (map ?f xs) =
                map ?f (filter (\<lambda>r. rt_user r = uid) xs)" for xs
    by (induction xs) auto
  show ?thesis
  proof (cases rs)
    case Nil
    then have "rows' = map ?f rows"
      using uc Cons by (auto simp add: update_or_create_def split: if_splits)
    then have one: "filter (\<lambda>r. rt_user r = uid) rows' = [?f r]"
      using comm [of rows] Cons Nil by simp
    have "r \<in> set (filter (\<lambda>r. rt_user r = uid) rows)"
      using Cons by simp
    then have "rt_user r = uid" by simp
    then show ?thesis using one by simp
  next
    case (Cons r' rs')
    then show ?thesis using uc \<open>filter (\<lambda>r. rt_user r = uid) rows = r # rs\<close>
      by (simp add: update_or_create_def)
  qed
qed

lemma login_row:
  assumes l: "CustomTokenObtainPairView_post d s req clk = (s', Response 200 (Tokens a r))"
    and u: "u \<in> set (users s)" "Some (u_email u) = r_email req"
  shows "map (\<lambda>r. (rt_token r, rt_expires_at r))
           (filter (\<lambda>r. rt_user r = u_id u) (refresh_tokens s')) =
           [(r, clk 4 + days (REFRESH_TOKEN_LIFETIME (constance s)))]
       \<and> users s' = users s \<and> constance s' = constance s"
proof -
  obtain u0 where f: "filter (\<lambda>u. Some (u_email u) = r_email req) (users s) = [u0]"
    and sv: "save_refresh_token s u0 r (clk 4) (clk 5) = Inr s'"
    using login_tokens_are_created [OF l] by blast
  have "u \<in> set (filter (\<lambda>u. Some (u_email u) = r_email req) (users s))"
    using u by simp
  then have "u = u0" using f by simp
  then have sv': "save_refresh_token s u r (clk 4) (clk 5) = Inr s'" using sv by simp
  then obtain rows where uc: "update_or_create (refresh_tokens s) (u_id u) r
                    (clk 4 + days (REFRESH_TOKEN_LIFETIME (constance s))) (clk 5) = Inr rows"
    and s': "s' = s\<lparr>refresh_tokens := rows\<rparr>"
    by (auto simp add: save_refresh_token_def Let_def split: sum.splits)
  show ?thesis using update_or_create_row [OF uc] s' by simp
qed

lemma int_str_7: "int_str ''7'' = Some 7"
  by code_simp

lemma int_str_10: "int_str ''10'' = Some 10"
  by code_simp

lemmas eval_defs = CustomTokenObtainPairView_post_def TokenRefreshView_post_def LogoutView_post_def
  objects_get_def check_password_def save_refresh_token_def update_or_create_def token_data_def
  create_token_def jwt_encode_def token_payload_def decode_token_def jwt_decode_def
  validate_claims_def validate_iat_def validate_nbf_def validate_exp_def validate_aud_def
  validate_sub_def validate_jti_def timestamp_def days_def seconds_def minutes_def
  ACCESS_TOKEN_EXPIRATION_def claim_of_def

section \<open>The token codec\<close>

text \<open>
  C3 (as stated, for every claims map and every lifetime): issuing a token and verifying
  it at once succeeds, with \<open>exp - iat\<close> within a second of the lifetime. It does not:
  with a lifetime of zero the token is expired at the instant it is issued; a claims map
  with an \<open>aud\<close> claim, an \<open>nbf\<close> claim in the future, or an integer \<open>sub\<close> or \<open>jti\<close> claim
  yields a token that \<open>decode_token\<close> refuses; with an integer \<open>iss\<close> claim no token is
  issued at all; and when a second begins between the two clock reads of \<open>create_token\<close>,
  \<open>exp - iat\<close> can fall short of the lifetime by more than a second.
\<close>

theorem issue_then_verify_counterexample:
  "create_token ''k'' [] (seconds 0) 5 5 = Inr [Jws ''k'' [(''exp'', JInt 0), (''iat'', JInt 0)]]
   \<and> decode_token ''k'' [Jws ''k'' [(''exp'', JInt 0), (''iat'', JInt 0)]] 5 = None
   \<and> create_token ''k'' [(''aud'', JStr ''shop'')] (seconds 900) 5 5 =
       Inr [Jws ''k'' [(''aud'', JStr ''shop''), (''exp'', JInt 900), (''iat'', JInt 0)]]
   \<and> decode_token ''k''
         [Jws ''k'' [(''aud'', JStr ''shop''), (''exp'', JInt 900), (''iat'', JInt 0)]] 5 = None
   \<and> create_token ''k'' [(''nbf'', JInt 60)] (seconds 900) 5 5 =
       Inr [Jws ''k'' [(''nbf'', JInt 60), (''exp'', JInt 900), (''iat'', JInt 0)]]
   \<and> decode_token ''k''
         [Jws ''k'' [(''nbf'', JInt 60), (''exp'', JInt 900), (''iat'', JInt 0)]] 5 = None
   \<and> create_token ''k'' [(''sub'', JInt 1)] (seconds 900) 5 5 =
       Inr [Jws ''k'' [(''sub'', JInt 1), (''exp'', JInt 900), (''iat'', JInt 0)]]
   \<and> decode_token ''k''
         [Jws ''k'' [(''sub'', JInt 1), (''exp'', JInt 900), (''iat'', JInt 0)]] 5 = None
   \<and> create_token ''k'' [(''jti'', JInt 1)] (seconds 900) 5 5 =
       Inr [Jws ''k'' [(''jti'', JInt 1), (''exp'', JInt 900), (''iat'', JInt 0)]]
   \<and> decode_token ''k''
         [Jws ''k'' [(''jti'', JInt 1), (''exp'', JInt 900), (''iat'', JInt 0)]] 5 = None
   \<and> create_token ''k'' [(''iss'', JInt 1)] (seconds 900) 5 5 = Inl TypeError
   \<and> create_token ''k'' [] 900000001 999998 1000000 =
       Inr [Jws ''k'' [(''exp'', JInt 900), (''iat'', JInt 1)]]
   \<and> decode_token ''k'' [Jws ''k'' [(''exp'', JInt 900), (''iat'', JInt 1)]] 1000000 =
       Some [(''exp'', JInt 900), (''iat'', JInt 1)]
   \<and> 1000000 < \<bar>(900 - 1) * 1000000 - (900000001::int)\<bar>"
  by (simp add: decode_token_def create_token_def token_payload_def jwt_encode_def
      jwt_decode_def validate_claims_def validate_iat_def validate_nbf_def validate_exp_def
      validate_aud_def validate_sub_def validate_jti_def timestamp_def seconds_def)

text \<open>
  C3 (amended). Let \<open>create_token\<close> return a token (it raises \<open>TypeError\<close> for an \<open>iss\<close>
  claim that is not a string), reading the clock at \<open>now1\<close> and then \<open>now2\<close>, with
  \<open>now1 + ttl\<close> an instant that \<open>datetime\<close> can represent; let the registered claims of
  \<open>data\<close> be acceptable at verification (no \<open>nbf\<close> in the future, no \<open>aud\<close> other than an
  empty one, \<open>sub\<close> and \<open>jti\<close> strings if present); and let the token be verified at \<open>now\<close>,
  not before it was issued and while the whole seconds of \<open>now\<close> are below the whole
  seconds of \<open>now1 + ttl\<close>. Then \<open>decode_token\<close> returns the claims of \<open>data\<close> extended with
  \<open>exp = timestamp (now1 + ttl)\<close> and \<open>iat = timestamp now2\<close>; \<open>iat \<le> now < exp\<close> in whole
  seconds; and \<open>exp - iat\<close> exceeds \<open>ttl\<close> by less than a second and falls short of it by
  less than a second plus the delay \<open>now2 - now1\<close> between the two reads.
\<close>

theorem issue_then_verify:
  assumes issued: "create_token k data ttl now1 now2 = Inr tok"
    and range: "datetime_min \<le> now1 + ttl" "now1 + ttl \<le> datetime_max"
    and nbf: "validate_nbf data (timestamp now) = None"
    and aud: "validate_aud data = None"
    and sub: "validate_sub data = None"
    and jti: "validate_jti data = None"
    and reads: "now1 \<le> now2" "now2 \<le> now"
    and live: "timestamp now < timestamp (now1 + ttl)"
  shows "decode_token k tok now =
           Some (AList.update ''iat'' (JInt (timestamp now2))
                  (AList.update ''exp'' (JInt (timestamp (now1 + ttl))) data))
       \<and> timestamp now2 \<le> timestamp now
       \<and> timestamp now < timestamp (now1 + ttl)
       \<and> (timestamp (now1 + ttl) - timestamp now2) * 1000000 < ttl + 1000000
       \<and> ttl - 1000000 - (now2 - now1) < (timestamp (now1 + ttl) - timestamp now2) * 1000000"
proof -
  let ?p = "token_payload data ttl now1 now2"
  have tok: "tok = [Jws k ?p]"
    using issued by (rule create_token_Inr)
  have iat_le: "timestamp now2 \<le> timestamp now"
    using reads(2) by (rule timestamp_mono)
  have "validate_iat ?p (timestamp now) = None"
    using iat_le by (simp add: validate_iat_def map_of_token_payload)
  moreover have "validate_nbf ?p (timestamp now) = None"
    using nbf by (simp add: validate_nbf_def map_of_token_payload)
  moreover have "validate_exp ?p (timestamp now) = None"
    using live by (simp add: validate_exp_def map_of_token_payload)
  moreover have "validate_aud ?p = None"
    using aud by (simp add: validate_aud_def map_of_token_payload)
  moreover have "validate_sub ?p = None"
    using sub by (simp add: validate_sub_def map_of_token_payload)
  moreover have "validate_jti ?p = None"
    using jti by (simp add: validate_jti_def map_of_token_payload)
  ultimately have "validate_claims ?p (timestamp now) = None"
    by (simp add: validate_claims_def)
  then have dec: "decode_token k tok now = Some ?p"
    using tok by (simp add: decode_token_def jwt_decode_def)
  have b1: "timestamp (now1 + ttl) * 1000000 \<le> now1 + ttl"
    and b2: "now1 + ttl < timestamp (now1 + ttl) * 1000000 + 1000000"
    and b3: "timestamp now2 * 1000000 \<le> now2"
    and b4: "now2 < timestamp now2 * 1000000 + 1000000"
    using timestamp_bounds by blast+
  have up: "(timestamp (now1 + ttl) - timestamp now2) * 1000000 < ttl + 1000000"
    using b1 b4 reads(1) by (simp add: algebra_simps)
  have lo: "ttl - 1000000 - (now2 - now1) < (timestamp (now1 + ttl) - timestamp now2) * 1000000"
    using b2 b3 by (simp add: algebra_simps)
  show ?thesis using dec iat_le live up lo by (simp add: token_payload_def)
qed

theorem issue_then_verify_witness:
  "create_token ''k'' [(''user_id'', JInt 1)] (seconds 900) 1500000 1500001 =
     Inr [Jws ''k'' [(''user_id'', JInt 1), (''exp'', JInt 901), (''iat'', JInt 1)]]
   \<and> decode_token ''k'' [Jws ''k'' [(''user_id'', JInt 1), (''exp'', JInt 901), (''iat'', JInt 1)]]
       1500002 =
     Some [(''user_id'', JInt 1), (''exp'', JInt 901), (''iat'', JInt 1)]
   \<and> (901 - 1) * 1000000 < seconds 900 + 1000000"
  using issue_then_verify
    [of "''k''" "[(''user_id'', JInt 1)]" "seconds 900" 1500000 1500001
      "[Jws ''k'' [(''user_id'', JInt 1), (''exp'', JInt 901), (''iat'', JInt 1)]]" 1500002]
  by (simp add: timestamp_def seconds_def create_token_def jwt_encode_def token_payload_def
      validate_nbf_def validate_aud_def validate_sub_def validate_jti_def datetime_min_def
      datetime_max_def)

text \<open>
  C4 (as stated, for every token with a valid signature): verification fails as expired
  exactly when the current time has reached \<open>exp\<close>. It does not for a token that is
  refused first as not yet valid: with \<open>exp = 5\<close> and \<open>iat = 100\<close> (or \<open>nbf = 100\<close>), ten
  seconds after the epoch, \<open>jwt.decode\<close> raises \<open>ImmatureSignatureError\<close> and the
  authentication hook answers "Invalid token", although \<open>exp\<close> has passed.
\<close>

theorem expiry_boundary_counterexample:
  "jwt_decode [Jws ''k'' [(''exp'', JInt 5), (''iat'', JInt 100)]] ''k'' 10000000 =
     Inl ImmatureSignatureError
   \<and> decode_token ''k'' [Jws ''k'' [(''exp'', JInt 5), (''iat'', JInt 100)]] 10000000 = None
   \<and> authenticate ''k'' []
        (Some (str ''Bearer '' @ [Jws ''k'' [(''exp'', JInt 5), (''iat'', JInt 100)]])) 10000000 =
     Inl (AuthenticationFailed ''Invalid token'')
   \<and> jwt_decode [Jws ''k'' [(''exp'', JInt 5), (''nbf'', JInt 100)]] ''k'' 10000000 =
     Inl ImmatureSignatureError
   \<and> (5::int) \<le> timestamp 10000000"
  by (simp add: jwt_decode_def decode_token_def authenticate_def startswith_def str_def
      validate_claims_def validate_iat_def validate_nbf_def validate_exp_def timestamp_def)

text \<open>
  C4 (amended). Take a token signed with the key whose \<open>exp\<close> claim \<open>int()\<close> converts to
  \<open>e\<close> and which is not refused as not yet valid (its \<open>iat\<close> and \<open>nbf\<close> claims pass).
  Verification fails with \<open>ExpiredSignatureError\<close> exactly when \<open>e \<le> now\<close> in whole seconds
  since the epoch, the instant \<open>now = e\<close> included; then \<open>decode_token\<close> returns \<open>None\<close>, and
  the authentication hook raises "Access token has expired" in exactly that case.
\<close>

theorem expiry_boundary:
  assumes ex: "map_of p ''exp'' = Some v" "int_val v = Some e"
    and iat: "validate_iat p (timestamp now) = None"
    and nbf: "validate_nbf p (timestamp now) = None"
  shows "(jwt_decode [Jws k p] k now = Inl ExpiredSignatureError \<longleftrightarrow> e \<le> timestamp now)
       \<and> (e \<le> timestamp now \<longrightarrow> decode_token k [Jws k p] now = None)
       \<and> (authenticate k us (Some (str ''Bearer '' @ [Jws k p])) now =
            Inl (AuthenticationFailed ''Access token has expired'') \<longleftrightarrow> e \<le> timestamp now)"
proof -
  have spl: "split (Chr CHR '' '') (str ''Bearer '' @ [Jws k p]) = [str ''Bearer'', [Jws k p]]"
    by (simp add: str_def)
  have sw: "startswith (str ''Bearer '' @ [Jws k p]) (str ''Bearer '')"
    by (simp add: startswith_def str_def)
  show ?thesis
  proof (cases "e \<le> timestamp now")
    case True
    then have "validate_claims p (timestamp now) = Some ExpiredSignatureError"
      using ex iat nbf by (simp add: validate_claims_def validate_exp_def)
    then have d: "jwt_decode [Jws k p] k now = Inl ExpiredSignatureError"
      by (simp add: jwt_decode_def)
    show ?thesis using True d spl sw
      by (simp add: decode_token_def authenticate_def)
  next
    case False
    then have ve: "validate_exp p (timestamp now) = None"
      using ex by (simp add: validate_exp_def)
    have ne: "validate_claims p (timestamp now) \<noteq> Some ExpiredSignatureError"
      using ve iat nbf
      by (auto simp add: validate_claims_def validate_aud_def validate_sub_def validate_jti_def
          split: option.splits jval.splits if_splits)
    have d: "jwt_decode [Jws k p] k now \<noteq> Inl ExpiredSignatureError"
      using ne by (auto simp add: jwt_decode_def split: option.splits)
    have "authenticate k us (Some (str ''Bearer '' @ [Jws k p])) now \<noteq>
            Inl (AuthenticationFailed ''Access token has expired'')"
      using d spl sw
      by (auto simp add: authenticate_def split: sum.splits jwt_error.splits option.splits
          exn.splits dest: objects_get_Inl)
    then show ?thesis using False d by simp
  qed
qed

theorem expiry_boundary_witness:
  "jwt_decode [Jws ''k'' [(''user_id'', JInt 1), (''exp'', JInt 10), (''iat'', JInt 0)]]
       ''k'' 10000000 = Inl ExpiredSignatureError
   \<and> jwt_decode [Jws ''k'' [(''user_id'', JInt 1), (''exp'', JInt 10), (''iat'', JInt 0)]]
       ''k'' 9999999 \<noteq> Inl ExpiredSignatureError
   \<and> jwt_decode [Jws ''k'' [(''user_id'', JInt 1), (''exp'', JStr ''10''), (''iat'', JInt 0)]]
       ''k'' 10000000 = Inl ExpiredSignatureError"
  using
    expiry_boundary
      [of "[(''user_id'', JInt 1), (''exp'', JInt 10), (''iat'', JInt 0)]" "JInt 10" 10
        10000000 "''k''" "[]"]
    expiry_boundary
      [of "[(''user_id'', JInt 1), (''exp'', JInt 10), (''iat'', JInt 0)]" "JInt 10" 10
        9999999 "''k''" "[]"]
    expiry_boundary
      [of "[(''user_id'', JInt 1), (''exp'', JStr ''10''), (''iat'', JInt 0)]" "JStr ''10''" 10
        10000000 "''k''" "[]"]
  by (simp add: validate_iat_def validate_nbf_def timestamp_def int_str_10)

section \<open>Login\<close>

text \<open>
  C5. A Login whose email matches no user answers 404 with the detail "User does not
  exist"; a Login whose email matches a user but whose password does not pass the check
  against the stored digest answers 401 with the detail "Invalid credentials". In both
  cases the answer carries no token and the whole state, the refresh-token table
  included, is as before.
\<close>

theorem login_failures:
  "(filter (\<lambda>u. Some (u_email u) = r_email req) (users s) = [] \<longrightarrow>
      CustomTokenObtainPairView_post d s req clk =
        (s, Response 404 (Detail ''User does not exist'')))
   \<and> (filter (\<lambda>u. Some (u_email u) = r_email req) (users s) = [u]
        \<and> \<not> check_password d (r_password req) u \<longrightarrow>
      CustomTokenObtainPairView_post d s req clk =
        (s, Response 401 (Detail ''Invalid credentials'')))"
  by (simp add: CustomTokenObtainPairView_post_def objects_get_def)

theorem login_failures_witness:
  "CustomTokenObtainPairView_post demo_deps demo_state
      (demo_login\<lparr>r_email := Some ''nobody@example.com''\<rparr>) (\<lambda>k. 0) =
     (demo_state, Response 404 (Detail ''User does not exist''))
   \<and> CustomTokenObtainPairView_post demo_deps demo_state
      (demo_login\<lparr>r_password := Some ''wrong''\<rparr>) (\<lambda>k. 0) =
     (demo_state, Response 401 (Detail ''Invalid credentials''))"
  using
    login_failures [of "demo_login\<lparr>r_email := Some ''nobody@example.com''\<rparr>" demo_state
      demo_deps "\<lambda>k. 0" demo_user]
    login_failures [of "demo_login\<lparr>r_password := Some ''wrong''\<rparr>" demo_state
      demo_deps "\<lambda>k. 0" demo_user]
  by (simp add: demo_defs check_password_def)

section \<open>Logout\<close>

text \<open>
  C6. Let a refresh token be supplied (a non-empty string; the absent or empty field is
  the separate answer "Refresh token is required") and let the table respect the
  uniqueness of its token column. If a row holds the token, Logout removes exactly that
  row and answers 200; the token is then in no row, and the same Logout repeated at once
  answers 400 "Invalid refresh token" and changes nothing. If no row holds the token,
  Logout answers 400 "Invalid refresh token" and the state is as before.
\<close>

theorem logout_outcomes:
  assumes given: "r_refresh req = Some tok" "tok \<noteq> []"
    and uniq: "distinct (map rt_token (refresh_tokens s))"
  shows "(\<forall>row. row \<in> set (refresh_tokens s) \<and> rt_token row = tok \<longrightarrow>
            LogoutView_post s req =
              (s\<lparr>refresh_tokens := remove1 row (refresh_tokens s)\<rparr>,
               Response 200 (Success ''User logged out.''))
          \<and> tok \<notin> set (map rt_token (remove1 row (refresh_tokens s)))
          \<and> LogoutView_post (fst (LogoutView_post s req)) req =
              (fst (LogoutView_post s req), Response 400 (Detail ''Invalid refresh token'')))
       \<and> (tok \<notin> set (map rt_token (refresh_tokens s)) \<longrightarrow>
            LogoutView_post s req = (s, Response 400 (Detail ''Invalid refresh token'')))"
proof -
  have absent: "LogoutView_post s' req = (s', Response 400 (Detail ''Invalid refresh token''))"
    if "tok \<notin> set (map rt_token (refresh_tokens s'))" for s'
  proof -
    have "filter (\<lambda>r. rt_token r = tok) (refresh_tokens s') = []"
      using that by (auto simp add: filter_empty_conv)
    then show ?thesis using given by (simp add: LogoutView_post_def objects_get_def)
  qed
  have present: "LogoutView_post s req =
              (s\<lparr>refresh_tokens := remove1 row (refresh_tokens s)\<rparr>,
               Response 200 (Success ''User logged out.''))
          \<and> tok \<notin> set (map rt_token (remove1 row (refresh_tokens s)))
          \<and> LogoutView_post (fst (LogoutView_post s req)) req =
              (fst (LogoutView_post s req), Response 400 (Detail ''Invalid refresh token''))"
    if r: "row \<in> set (refresh_tokens s)" "rt_token row = tok" for row
  proof -
    have f: "filter (\<lambda>r. rt_token r = tok) (refresh_tokens s) = [row]"
      using filter_unique [OF uniq r(1)] r(2) by simp
    have d: "distinct (refresh_tokens s)" using uniq by (simp add: distinct_map)
    have out: "LogoutView_post s req =
              (s\<lparr>refresh_tokens := remove1 row (refresh_tokens s)\<rparr>,
               Response 200 (Success ''User logged out.''))"
      using given f filter_neq_remove1 [OF d, of row]
      by (simp add: LogoutView_post_def objects_get_def)
    have inj: "inj_on rt_token (set (refresh_tokens s))"
      using uniq by (simp add: distinct_map)
    have "\<forall>y\<in>set (refresh_tokens s) - {row}. rt_token y \<noteq> rt_token row"
      using inj r(1) by (auto dest: inj_onD)
    then have gone: "tok \<notin> set (map rt_token (remove1 row (refresh_tokens s)))"
      using d r(2) by (auto simp add: set_remove1_eq)
    have "LogoutView_post (s\<lparr>refresh_tokens := remove1 row (refresh_tokens s)\<rparr>) req =
            (s\<lparr>refresh_tokens := remove1 row (refresh_tokens s)\<rparr>,
             Response 400 (Detail ''Invalid refresh token''))"
      using gone by (intro absent) simp
    then show ?thesis using out gone by simp
  qed
  show ?thesis using absent present by blast
qed

theorem logout_outcomes_witness:
  "LogoutView_post (demo_state\<lparr>refresh_tokens := [demo_row]\<rparr>)
      (with_refresh [Jws ''secret'' [(''user_id'', JInt 1)]]) =
     (demo_state\<lparr>refresh_tokens := []\<rparr>, Response 200 (Success ''User logged out.''))
   \<and> LogoutView_post (demo_state\<lparr>refresh_tokens := []\<rparr>)
      (with_refresh [Jws ''secret'' [(''user_id'', JInt 1)]]) =
     (demo_state\<lparr>refresh_tokens := []\<rparr>, Response 400 (Detail ''Invalid refresh token''))"
  using
    logout_outcomes [of "with_refresh [Jws ''secret'' [(''user_id'', JInt 1)]]"
      "[Jws ''secret'' [(''user_id'', JInt 1)]]" "demo_state\<lparr>refresh_tokens := [demo_row]\<rparr>"]
    logout_outcomes [of "with_refresh [Jws ''secret'' [(''user_id'', JInt 1)]]"
      "[Jws ''secret'' [(''user_id'', JInt 1)]]" "demo_state\<lparr>refresh_tokens := []\<rparr>"]
  by (simp add: demo_defs demo_row_def)

section \<open>Refresh\<close>


text \<open>
  C2. Let the supplied refresh token verify at the clock read of \<open>jwt.decode\<close> (its
  signature is valid and it has not expired), and let its \<open>user_id\<close> claim be the id of
  exactly one user \<open>u\<close>. Then Refresh answers 200 with a new access token for \<open>u\<close>,
  whatever rows the refresh-token table holds; in particular it does so in the state
  that a Logout with the same token leaves behind.
\<close>

theorem refresh_ignores_store:
  assumes tok: "r_refresh req = Some tok"
    and dec: "decode_token (SECRET_KEY d) tok (clk 0) = Some p"
    and uid: "map_of p ''user_id'' = Some (JInt uid)"
    and usr: "filter (\<lambda>u. u_id u = uid) (users s) = [u]"
  shows "TokenRefreshView_post d (s\<lparr>refresh_tokens := rows\<rparr>) req clk =
           (s\<lparr>refresh_tokens := rows\<rparr>,
            Response 200 (Access [Jws (SECRET_KEY d)
              (token_payload (token_data u) ACCESS_TOKEN_EXPIRATION (clk 1) (clk 2))]))
       \<and> TokenRefreshView_post d (fst (LogoutView_post s req)) req clk =
           (fst (LogoutView_post s req),
            Response 200 (Access [Jws (SECRET_KEY d)
              (token_payload (token_data u) ACCESS_TOKEN_EXPIRATION (clk 1) (clk 2))]))"
proof -
  have ne: "tok \<noteq> []"
    using dec by (auto simp add: decode_token_def jwt_decode_def)
  have pne: "p \<noteq> []" using uid by auto
  have any: "TokenRefreshView_post d s' req clk =
           (s', Response 200 (Access [Jws (SECRET_KEY d)
              (token_payload (token_data u) ACCESS_TOKEN_EXPIRATION (clk 1) (clk 2))]))"
    if "users s' = users s" for s'
    using tok dec uid usr ne pne that
    by (simp add: TokenRefreshView_post_def objects_get_def create_token_token_data)
  have "users (fst (LogoutView_post s req)) = users s"
    by (auto simp add: LogoutView_post_def split: option.splits sum.splits exn.splits)
  then show ?thesis using any by simp
qed


theorem refresh_ignores_store_witness:
  "LogoutView_post demo_logged_in (with_refresh demo_refresh) =
     (demo_state, Response 200 (Success ''User logged out.''))
   \<and> TokenRefreshView_post demo_deps demo_state (with_refresh demo_refresh) later_clock =
     (demo_state, Response 200 (Access later_access))"
  using refresh_ignores_store [of "with_refresh demo_refresh" demo_refresh demo_deps later_clock
      "[(''user_id'', JInt 1), (''email'', JStr ''testuser@example.com''),
        (''exp'', JInt 604800), (''iat'', JInt 0)]" 1 demo_logged_in demo_user "[]"]
  by (simp add: demo_defs eval_defs demo2)

text \<open>
  C9. Whatever the settings hold, a successful Refresh answers the same and mints the
  same access token: its \<open>exp\<close> claim is the whole seconds of the first clock read of
  \<open>create_token\<close> plus 900, the module constant \<open>ACCESS_TOKEN_EXPIRATION\<close> of 15 minutes,
  and its \<open>iat\<close> the whole seconds of the second read. The access token of a Login under
  the same settings has \<open>exp\<close> at the configured \<open>ACCESS_TOKEN_LIFETIME\<close> instead.
\<close>

theorem refresh_lifetime_fixed:
  assumes "TokenRefreshView_post d s req clk = (s', Response 200 (Access a))"
  shows "TokenRefreshView_post d (s\<lparr>constance := c\<rparr>) req clk =
           (s'\<lparr>constance := c\<rparr>, Response 200 (Access a))
       \<and> claim_of a ''exp'' = Some (JInt (timestamp (clk 1) + 900))
       \<and> claim_of a ''iat'' = Some (JInt (timestamp (clk 2)))
       \<and> (CustomTokenObtainPairView_post d (s\<lparr>constance := c\<rparr>) req' clk' =
             (s'', Response 200 (Tokens a' r')) \<longrightarrow>
           claim_of a' ''exp'' = Some (JInt (timestamp (clk' 0) + ACCESS_TOKEN_LIFETIME c)))"
proof -
  obtain u where a: "a = [Jws (SECRET_KEY d)
                          (token_payload (token_data u) ACCESS_TOKEN_EXPIRATION (clk 1) (clk 2))]"
    using refresh_access_is_created [OF assms] by blast
  have e: "timestamp (clk 1 + ACCESS_TOKEN_EXPIRATION) = timestamp (clk 1) + 900"
    using timestamp_add_seconds [of "clk 1" 900]
    by (simp add: ACCESS_TOKEN_EXPIRATION_def minutes_def)
  have login: "claim_of a' ''exp'' = Some (JInt (timestamp (clk' 0) + ACCESS_TOKEN_LIFETIME c))"
    if l: "CustomTokenObtainPairView_post d (s\<lparr>constance := c\<rparr>) req' clk' =
             (s'', Response 200 (Tokens a' r'))" for req' clk' s'' a' r'
  proof -
    obtain u' where "a' = [Jws (SECRET_KEY d) (token_payload (token_data u')
                   (seconds (ACCESS_TOKEN_LIFETIME c)) (clk' 0) (clk' 1))]"
      using login_tokens_are_created [OF l] by auto
    then show ?thesis
      by (simp add: claim_of_create_token_exp timestamp_add_seconds)
  qed
  have "TokenRefreshView_post d (s\<lparr>constance := c\<rparr>) req clk =
           (s'\<lparr>constance := c\<rparr>, Response 200 (Access a))"
    using assms by (simp add: refresh_config_free)
  moreover have "claim_of a ''exp'' = Some (JInt (timestamp (clk 1) + 900))"
    using a e by (simp add: claim_of_create_token_exp)
  moreover have "claim_of a ''iat'' = Some (JInt (timestamp (clk 2)))"
    using a by (simp add: claim_of_create_token_iat)
  ultimately show ?thesis using login [of req' clk' s'' a' r'] by simp
qed

theorem refresh_lifetime_fixed_witness:
  "TokenRefreshView_post demo_deps (demo_state\<lparr>constance := short_config\<rparr>)
      (with_refresh demo_refresh) later_clock =
     (demo_state\<lparr>constance := short_config\<rparr>,
      Response 200 (Access later_access))
   \<and> claim_of later_access ''exp'' = Some (JInt 905)
   \<and> claim_of short_access
        ''exp'' = Some (JInt 65)"
  using refresh_lifetime_fixed [of demo_deps demo_state "with_refresh demo_refresh" later_clock
      demo_state later_access short_config demo_login later_clock
      "later_logged_in\<lparr>constance := short_config\<rparr>"
      short_access
      later_refresh]
  by (simp add: demo_defs eval_defs demo2)

section \<open>Settings read at request time\<close>

text \<open>
  C7. Let a Login succeed, let the settings then be replaced by \<open>c\<close> (the state is
  otherwise the one the Login left; nothing is restarted), and let the next Login succeed.
  The access token of the second Login has \<open>exp\<close> at the whole seconds of its first clock
  read plus the new \<open>ACCESS_TOKEN_LIFETIME\<close>, and \<open>iat\<close> at the whole seconds of its second
  read; the access token issued before the change still carries the \<open>exp\<close> computed from
  the setting of its own Login.
\<close>

theorem access_ttl_hot_reload:
  assumes before: "CustomTokenObtainPairView_post d s req0 clk0 =
                     (s1, Response 200 (Tokens a0 r0))"
    and after: "CustomTokenObtainPairView_post d (s1\<lparr>constance := c\<rparr>) req clk =
                  (s2, Response 200 (Tokens a r))"
  shows "claim_of a ''exp'' = Some (JInt (timestamp (clk 0) + ACCESS_TOKEN_LIFETIME c))
       \<and> claim_of a ''iat'' = Some (JInt (timestamp (clk 1)))
       \<and> claim_of a0 ''exp'' =
           Some (JInt (timestamp (clk0 0) + ACCESS_TOKEN_LIFETIME (constance s)))"
proof -
  obtain u where a: "a = [Jws (SECRET_KEY d) (token_payload (token_data u)
                   (seconds (ACCESS_TOKEN_LIFETIME c)) (clk 0) (clk 1))]"
    using login_tokens_are_created [OF after] by auto
  obtain u0 where a0: "a0 = [Jws (SECRET_KEY d) (token_payload (token_data u0)
                   (seconds (ACCESS_TOKEN_LIFETIME (constance s))) (clk0 0) (clk0 1))]"
    using login_tokens_are_created [OF before] by auto
  show ?thesis
    by (simp add: a a0 claim_of_create_token_exp claim_of_create_token_iat timestamp_add_seconds)
qed

theorem access_ttl_hot_reload_witness:
  "CustomTokenObtainPairView_post demo_deps demo_state demo_login demo_clock =
     (demo_logged_in, Response 200 (Tokens demo_access demo_refresh))
   \<and> CustomTokenObtainPairView_post demo_deps (demo_logged_in\<lparr>constance := short_config\<rparr>)
        demo_login later_clock =
     (later_logged_in\<lparr>constance := short_config\<rparr>,
      Response 200
        (Tokens short_access
           later_refresh))
   \<and> claim_of short_access
        ''exp'' = Some (JInt 65)
   \<and> claim_of demo_access ''exp'' = Some (JInt 900)"
  using access_ttl_hot_reload [of demo_deps demo_state demo_login demo_clock demo_logged_in
      demo_access demo_refresh short_config demo_login later_clock
      "later_logged_in\<lparr>constance := short_config\<rparr>"
      short_access
      later_refresh]
  by (simp add: demo_defs eval_defs demo2)

section \<open>The authentication hook\<close>

text \<open>
  C10. Without an \<open>Authorization\<close> header, or with one that does not start with
  "Bearer ", \<open>authenticate\<close> returns \<open>None\<close>. It raises \<open>AuthenticationFailed\<close> only for a
  header that starts with "Bearer ", and then in exactly three cases, each with its own
  message: the presented token is expired ("Access token has expired"), \<open>jwt.decode\<close>
  refuses it for another reason ("Invalid token"), or it verifies and the lookup of its
  \<open>user_id\<close>, converted with \<open>int()\<close>, finds no user ("User not found"). The presented token
  is the second piece of the header split at spaces.
\<close>

theorem authenticate_outcomes:
  "authenticate k us None now = Inr None
   \<and> (\<not> startswith x (str ''Bearer '') \<longrightarrow> authenticate k us (Some x) now = Inr None)
   \<and> (authenticate k us (Some x) now = Inl (AuthenticationFailed m) \<longrightarrow>
        startswith x (str ''Bearer '')
        \<and> ((m = ''Access token has expired''
              \<and> jwt_decode (split (Chr CHR '' '') x ! 1) k now = Inl ExpiredSignatureError)
           \<or> (m = ''Invalid token''
              \<and> (\<exists>e. jwt_decode (split (Chr CHR '' '') x ! 1) k now = Inl e
                     \<and> e \<noteq> ExpiredSignatureError))
           \<or> (m = ''User not found''
              \<and> (\<exists>p v uid. jwt_decode (split (Chr CHR '' '') x ! 1) k now = Inr p
                     \<and> map_of p ''user_id'' = Some v \<and> int_val v = Some uid
                     \<and> uid \<notin> set (map u_id us)))))
   \<and> (startswith x (str ''Bearer '') \<longrightarrow>
        (jwt_decode (split (Chr CHR '' '') x ! 1) k now = Inl ExpiredSignatureError \<longrightarrow>
           authenticate k us (Some x) now =
             Inl (AuthenticationFailed ''Access token has expired''))
        \<and> (\<forall>e. jwt_decode (split (Chr CHR '' '') x ! 1) k now = Inl e
                 \<and> e \<noteq> ExpiredSignatureError \<longrightarrow>
           authenticate k us (Some x) now = Inl (AuthenticationFailed ''Invalid token''))
        \<and> (\<forall>p v uid. jwt_decode (split (Chr CHR '' '') x ! 1) k now = Inr p
                 \<and> map_of p ''user_id'' = Some v \<and> int_val v = Some uid
                 \<and> uid \<notin> set (map u_id us) \<longrightarrow>
           authenticate k us (Some x) now = Inl (AuthenticationFailed ''User not found'')))"
proof (intro conjI impI allI)
  show "authenticate k us None now = Inr None"
    by (simp add: authenticate_def)
next
  assume "\<not> startswith x (str ''Bearer '')"
  then show "authenticate k us (Some x) now = Inr None"
    by (simp add: authenticate_def)
next
  assume a: "authenticate k us (Some x) now = Inl (AuthenticationFailed m)"
  show "startswith x (str ''Bearer '')"
    using a by (auto simp add: authenticate_def split: if_splits)
next
  assume a: "authenticate k us (Some x) now = Inl (AuthenticationFailed m)"
  have sw: "startswith x (str ''Bearer '')" and ne: "x \<noteq> []"
    using a by (auto simp add: authenticate_def split: if_splits)
  obtain t r where sp: "split (Chr CHR '' '') x = str ''Bearer'' # t # r"
    using startswith_bearer_split [OF sw] by blast
  then have t: "split (Chr CHR '' '') x ! 1 = t" by simp
  show "(m = ''Access token has expired''
              \<and> jwt_decode (split (Chr CHR '' '') x ! 1) k now = Inl ExpiredSignatureError)
           \<or> (m = ''Invalid token''
              \<and> (\<exists>e. jwt_decode (split (Chr CHR '' '') x ! 1) k now = Inl e
                     \<and> e \<noteq> ExpiredSignatureError))
           \<or> (m = ''User not found''
              \<and> (\<exists>p v uid. jwt_decode (split (Chr CHR '' '') x ! 1) k now = Inr p
                     \<and> map_of p ''user_id'' = Some v \<and> int_val v = Some uid
                     \<and> uid \<notin> set (map u_id us)))"
  proof (cases "jwt_decode t k now")
    case (Inl e)
    then show ?thesis using a sw ne sp t
      by (cases e) (auto simp add: authenticate_def)
  next
    case (Inr p)
    show ?thesis
    proof (cases "map_of p ''user_id''")
      case None
      then show ?thesis using a sw ne sp Inr by (simp add: authenticate_def)
    next
      case (Some v)
      show ?thesis
      proof (cases "int_val v")
        case None
        then show ?thesis using a sw ne sp Inr Some by (simp add: authenticate_def)
      next
        case conv: (Some uid)
        have og: "objects_get User_DoesNotExist (\<lambda>u. u_id u = uid) us =
                    Inl (AuthenticationFailed m) \<or>
                  (objects_get User_DoesNotExist (\<lambda>u. u_id u = uid) us = Inl User_DoesNotExist
                    \<and> m = ''User not found'')"
          using a sw ne sp Inr Some conv
          by (auto simp add: authenticate_def split: sum.splits exn.splits)
        then have dne: "objects_get User_DoesNotExist (\<lambda>u. u_id u = uid) us = Inl User_DoesNotExist"
          and m: "m = ''User not found''"
          using objects_get_Inl [of User_DoesNotExist "\<lambda>u. u_id u = uid" us "AuthenticationFailed m"]
          by auto
        have "filter (\<lambda>u. u_id u = uid) us = []"
          using dne by (auto simp add: objects_get_def split: list.splits)
        then have "uid \<notin> set (map u_id us)"
          by (auto simp add: filter_empty_conv)
        then show ?thesis using m Inr Some conv t by simp
      qed
    qed
  qed
next
  assume sw: "startswith x (str ''Bearer '')"
    and d: "jwt_decode (split (Chr CHR '' '') x ! 1) k now = Inl ExpiredSignatureError"
  obtain t r where sp: "split (Chr CHR '' '') x = str ''Bearer'' # t # r"
    using startswith_bearer_split [OF sw] by blast
  have ne: "x \<noteq> []" using sw by (auto simp add: startswith_def str_def)
  show "authenticate k us (Some x) now = Inl (AuthenticationFailed ''Access token has expired'')"
    using sw ne sp d by (simp add: authenticate_def)
next
  fix e
  assume sw: "startswith x (str ''Bearer '')"
    and d: "jwt_decode (split (Chr CHR '' '') x ! 1) k now = Inl e \<and> e \<noteq> ExpiredSignatureError"
  obtain t r where sp: "split (Chr CHR '' '') x = str ''Bearer'' # t # r"
    using startswith_bearer_split [OF sw] by blast
  have ne: "x \<noteq> []" using sw by (auto simp add: startswith_def str_def)
  show "authenticate k us (Some x) now = Inl (AuthenticationFailed ''Invalid token'')"
    using sw ne sp d by (cases e) (auto simp add: authenticate_def)
next
  fix p v uid
  assume sw: "startswith x (str ''Bearer '')"
    and d: "jwt_decode (split (Chr CHR '' '') x ! 1) k now = Inr p
              \<and> map_of p ''user_id'' = Some v \<and> int_val v = Some uid
              \<and> uid \<notin> set (map u_id us)"
  obtain t r where sp: "split (Chr CHR '' '') x = str ''Bearer'' # t # r"
    using startswith_bearer_split [OF sw] by blast
  have ne: "x \<noteq> []" using sw by (auto simp add: startswith_def str_def)
  have "filter (\<lambda>u. u_id u = uid) us = []"
    using d by (auto simp add: filter_empty_conv)
  then show "authenticate k us (Some x) now = Inl (AuthenticationFailed ''User not found'')"
    using sw ne sp d by (simp add: authenticate_def objects_get_def)
qed

theorem authenticate_outcomes_witness:
  "authenticate ''secret'' [demo_user] None 0 = Inr None
   \<and> authenticate ''secret'' [demo_user] (Some (str ''Basic abc'')) 0 = Inr None
   \<and> authenticate ''secret'' [demo_user] (Some (str ''Bearer '' @ demo_access)) (seconds 900) =
       Inl (AuthenticationFailed ''Access token has expired'')
   \<and> startswith (str ''Bearer '' @ demo_access) (str ''Bearer '')
   \<and> authenticate ''secret'' [demo_user]
        (Some (str ''Bearer '' @ [Jws ''secret'' [(''user_id'', JStr ''7'')]])) 0 =
       Inl (AuthenticationFailed ''User not found'')"
  using
    authenticate_outcomes [of "''secret''" "[demo_user]" 0 "str ''Basic abc''" "''x''"]
    authenticate_outcomes [of "''secret''" "[demo_user]" "seconds 900"
      "str ''Bearer '' @ demo_access" "''Access token has expired''"]
    authenticate_outcomes [of "''secret''" "[demo_user]" 0
      "str ''Bearer '' @ [Jws ''secret'' [(''user_id'', JStr ''7'')]]" "''User not found''"]
  by (simp add: demo_defs eval_defs demo2 startswith_def str_def authenticate_def int_str_7)

section \<open>One refresh token per user\<close>

text \<open>
  C1. If no user has two rows in the refresh-token table, then after any sequence of
  Register, Login, Refresh and Logout requests, run one after the other, no user has two
  rows: for every user id at most one row carries it. And when two Logins for the same
  email succeed one after the other, the table then holds exactly one row for that user,
  with the refresh token returned by the second Login and the \<open>expires_at\<close> computed by
  the second Login.
\<close>

theorem single_refresh_row:
  "(one_row_per_user (refresh_tokens s) \<longrightarrow>
      one_row_per_user (refresh_tokens (run d s ops))
      \<and> length (filter (\<lambda>r. rt_user r = uid) (refresh_tokens (run d s ops))) \<le> 1)
   \<and> (CustomTokenObtainPairView_post d s req clk = (s1, Response 200 (Tokens a1 r1))
       \<and> CustomTokenObtainPairView_post d s1 req' clk' = (s2, Response 200 (Tokens a2 r2))
       \<and> r_email req' = r_email req
       \<and> u \<in> set (users s) \<and> Some (u_email u) = r_email req \<longrightarrow>
      map (\<lambda>r. (rt_token r, rt_expires_at r))
        (filter (\<lambda>r. rt_user r = u_id u) (refresh_tokens s2)) =
        [(r2, clk' 4 + days (REFRESH_TOKEN_LIFETIME (constance s)))])"
proof (rule conjI; rule impI)
  assume inv: "one_row_per_user (refresh_tokens s)"
  show "one_row_per_user (refresh_tokens (run d s ops))
      \<and> length (filter (\<lambda>r. rt_user r = uid) (refresh_tokens (run d s ops))) \<le> 1"
    using run_inv [OF inv, of d ops]
      distinct_filter_le1 [of rt_user "refresh_tokens (run d s ops)" uid]
    by (simp add: one_row_per_user_def)
next
  assume a: "CustomTokenObtainPairView_post d s req clk = (s1, Response 200 (Tokens a1 r1))
       \<and> CustomTokenObtainPairView_post d s1 req' clk' = (s2, Response 200 (Tokens a2 r2))
       \<and> r_email req' = r_email req
       \<and> u \<in> set (users s) \<and> Some (u_email u) = r_email req"
  then have first: "users s1 = users s \<and> constance s1 = constance s"
    using login_row [of d s req clk s1 a1 r1 u] by simp
  have "map (\<lambda>r. (rt_token r, rt_expires_at r))
           (filter (\<lambda>r. rt_user r = u_id u) (refresh_tokens s2)) =
           [(r2, clk' 4 + days (REFRESH_TOKEN_LIFETIME (constance s1)))]"
    using a first login_row [of d s1 req' clk' s2 a2 r2 u] by simp
  then show "map (\<lambda>r. (rt_token r, rt_expires_at r))
        (filter (\<lambda>r. rt_user r = u_id u) (refresh_tokens s2)) =
        [(r2, clk' 4 + days (REFRESH_TOKEN_LIFETIME (constance s)))]"
    using first by simp
qed

theorem single_refresh_row_witness:
  "one_row_per_user (refresh_tokens demo_state)
   \<and> one_row_per_user (refresh_tokens
        (run demo_deps demo_state [Login demo_login demo_clock, Login demo_login later_clock]))
   \<and> CustomTokenObtainPairView_post demo_deps demo_state demo_login demo_clock =
       (demo_logged_in, Response 200 (Tokens demo_access demo_refresh))
   \<and> CustomTokenObtainPairView_post demo_deps demo_logged_in demo_login later_clock =
       (later_logged_in, Response 200 (Tokens later_access later_refresh))
   \<and> map (\<lambda>r. (rt_token r, rt_expires_at r))
        (filter (\<lambda>r. rt_user r = 1) (refresh_tokens later_logged_in)) =
       [(later_refresh, 5000000 + days 7)]"
  using single_refresh_row [of demo_state demo_deps
      "[Login demo_login demo_clock, Login demo_login later_clock]" 1
      demo_login demo_clock demo_logged_in demo_access demo_refresh
      demo_login later_clock later_logged_in later_access later_refresh demo_user]
  by (simp add: demo_defs eval_defs demo2)

end
